theory Spec2Isabelle
  imports Main "HOL-Library.AList"
begin

section \<open>Python values, exceptions and dictionaries\<close>

text \<open>
  The views of \<^verbatim>\<open>game/views.py\<close> pass around JSON-shaped Python values: the launch
  claims, the POST parameters, the roster members and the score entries are all
  dictionaries decoded from JSON. A dictionary is an association list, read with
  \<open>map_of\<close>, so that the order of the keys is kept. Floating point numbers are not
  represented; no line of the views inspects one.
\<close>

datatype pyval =
    PNone
  | PBool bool
  | PInt int
  | PStr string
  | PList "pyval list"
  | PDict "(string \<times> pyval) list"

type_synonym pydict = "(string \<times> pyval) list"

text \<open>
  Every \<^verbatim>\<open>raise\<close> of the views and every exception of the interpreter or of the
  wrapped library is a value. \<open>LtiServiceException\<close> carries its string form
  \<^verbatim>\<open>str(e)\<close>; it is a subclass of \<open>LtiException\<close> in the library, so that an
  \<^verbatim>\<open>except LtiServiceException\<close> clause does not catch a plain \<open>LtiException\<close>.
\<close>

datatype exc =
    KeyError pyval
  | TypeError string
  | ValueError string
  | AttributeError string
  | PyException string
  | LtiException string
  | LtiServiceException string

text \<open>\<^verbatim>\<open>d.get(k, dflt)\<close> on a dictionary.\<close>

definition dict_get :: "pydict \<Rightarrow> string \<Rightarrow> pyval \<Rightarrow> pyval" where
  "dict_get d k dflt = (case map_of d k of None \<Rightarrow> dflt | Some v \<Rightarrow> v)"

text \<open>\<^verbatim>\<open>d[k]\<close>: a missing key raises \<open>KeyError\<close>.\<close>

definition dict_item :: "pydict \<Rightarrow> string \<Rightarrow> exc + pyval" where
  "dict_item d k = (case map_of d k of None \<Rightarrow> Inl (KeyError (PStr k)) | Some v \<Rightarrow> Inr v)"

text \<open>\<^verbatim>\<open>d[k] = v\<close>: an existing key keeps its place, a new key is appended.\<close>

definition dict_set :: "pydict \<Rightarrow> string \<Rightarrow> pyval \<Rightarrow> pydict" where
  "dict_set d k v = AList.update k v d"

text \<open>
  \<^verbatim>\<open>v.get(k, dflt)\<close> on a value that need not be a dictionary: only a dictionary has
  the method.
\<close>

definition attr_get :: "pyval \<Rightarrow> string \<Rightarrow> pyval \<Rightarrow> exc + pyval" where
  "attr_get v k dflt =
     (case v of
        PDict d \<Rightarrow> Inr (dict_get d k dflt)
      | _ \<Rightarrow> Inl (AttributeError ''get''))"

text \<open>Truth value of a Python value, as \<^verbatim>\<open>if x:\<close> tests it.\<close>

fun truthy :: "pyval \<Rightarrow> bool" where
  "truthy PNone = False"
| "truthy (PBool b) = b"
| "truthy (PInt i) = (i \<noteq> 0)"
| "truthy (PStr s) = (s \<noteq> [])"
| "truthy (PList xs) = (xs \<noteq> [])"
| "truthy (PDict d) = (d \<noteq> [])"

text \<open>
  A dictionary key must be hashable, and keys are compared with \<^verbatim>\<open>==\<close>, under which
  \<^verbatim>\<open>True == 1\<close> and \<^verbatim>\<open>False == 0\<close>: \<open>dict_key\<close> maps a key to its representative.
\<close>

fun hashable :: "pyval \<Rightarrow> bool" where
  "hashable (PList xs) = False"
| "hashable (PDict d) = False"
| "hashable v = True"

fun dict_key :: "pyval \<Rightarrow> pyval" where
  "dict_key (PBool b) = PInt (if b then 1 else 0)"
| "dict_key v = v"

text \<open>A value that is \<^verbatim>\<open>None\<close> or a string, as \<^verbatim>\<open>request.POST.get(k)\<close> returns it.\<close>

definition opt_str :: "string option \<Rightarrow> pyval" where
  "opt_str s = (case s of None \<Rightarrow> PNone | Some x \<Rightarrow> PStr x)"

text \<open>The text an f-string puts for such a value.\<close>

definition format_str :: "string option \<Rightarrow> string" where
  "format_str s = (case s of None \<Rightarrow> ''None'' | Some x \<Rightarrow> x)"


section \<open>Requests and responses\<close>

text \<open>
  A response of the web framework. \<open>HttpResponse\<close> carries its status code and body,
  \<open>JsonResponse\<close> its payload (status 200), and \<open>TemplateResponse\<close> the template names
  and the context handed to the template engine (status 200). The context is whatever
  \<^verbatim>\<open>get_context_data\<close> returned: Python does not force it to be a dictionary.
\<close>

datatype response =
    HttpResponse nat string
  | JsonResponse pydict
  | TemplateResponse "string list" tctx
and tctx =
    ContextDict pydict
  | ContextObject response

definition HttpResponseForbidden :: "string \<Rightarrow> response" where
  "HttpResponseForbidden msg = HttpResponse 403 msg"

definition HttpResponseNotAllowed :: response where
  "HttpResponseNotAllowed = HttpResponse 405 []"

fun status_code :: "response \<Rightarrow> nat" where
  "status_code (HttpResponse st body) = st"
| "status_code (JsonResponse payload) = 200"
| "status_code (TemplateResponse names ctx) = 200"

datatype http_method = M_GET | M_HEAD | M_POST | M_OPTIONS | M_OTHER

text \<open>
  What a view reads of a request: its HTTP verb, \<^verbatim>\<open>request.POST\<close> (as its \<^verbatim>\<open>get\<close> sees
  it), the keyword arguments the URL pattern captured (\<^verbatim>\<open>self.kwargs\<close>),
  \<^verbatim>\<open>request.build_absolute_uri\<close>, and the context dictionary that the framework's
  \<^verbatim>\<open>ContextMixin.get_context_data\<close> builds for the request.
\<close>

record request =
  req_method :: http_method
  POST :: "string \<rightharpoonup> string"
  kwargs :: "string \<rightharpoonup> string"
  build_absolute_uri :: "string \<Rightarrow> string"
  base_context :: pydict

text \<open>
  What the views use of the interpreter and of the library outside the launch object:
  the clock (\<^verbatim>\<open>datetime.datetime.utcnow().isoformat()\<close>), the builtin \<^verbatim>\<open>int\<close> on a
  string (\<open>None\<close> where it raises \<open>ValueError\<close>), and the role checks
  \<^verbatim>\<open>TeacherRole(data).check()\<close> and \<^verbatim>\<open>StudentRole(data).check()\<close> as functions of the
  roles value put into \<^verbatim>\<open>data\<close>.
\<close>

record env =
  utcnow_isoformat :: string
  py_int :: "string \<Rightarrow> int option"
  TeacherRole_check :: "pyval \<Rightarrow> exc + bool"
  StudentRole_check :: "pyval \<Rightarrow> exc + bool"


section \<open>The values and services of the LTI library\<close>

record grade =
  g_score_given :: int
  g_score_maximum :: int
  g_timestamp :: string
  g_activity_progress :: "string option"
  g_grading_progress :: "string option"
  g_user_id :: pyval

record line_item =
  li_id :: "string option"
  li_tag :: "string option"
  li_score_maximum :: "int option"
  li_label :: "string option"
  li_resource_id :: "pyval option"

text \<open>\<^verbatim>\<open>LineItem()\<close>: nothing is set.\<close>

definition LineItem :: line_item where
  "LineItem = \<lparr>li_id = None, li_tag = None, li_score_maximum = None, li_label = None,
     li_resource_id = None\<rparr>"

record deep_link_resource =
  dl_url :: string
  dl_custom_params :: pydict
  dl_title :: string

text \<open>
  The grade service of a launch. \<open>can_create_lineitem\<close> is the library's answer to
  \<^verbatim>\<open>ags.can_create_lineitem()\<close>, which looks the line-item scope up in the scopes of
  the launch's service data and raises when there are none; \<open>lineitem\<close> is the line item
  that already exists and has been included in the launch data, if any (the docstring of
  \<open>SetScoreView\<close>); the three calls answer with a value or raise.
\<close>

record ags_service =
  can_create_lineitem :: "exc + bool"
  lineitem :: "string option"
  put_grade :: "grade \<Rightarrow> line_item option \<Rightarrow> exc + pydict"
  find_or_create_lineitem :: "line_item \<Rightarrow> exc + line_item"
  get_grades :: "line_item option \<Rightarrow> exc + pydict list"

record nrps_service =
  get_members :: "exc + pydict list"

text \<open>
  The message launch object, by what the library's methods answer on it.
  \<open>get_iss\<close> raises when the launch carries no issuer, and otherwise answers the
  issuer. \<open>output_response_form\<close> is \<^verbatim>\<open>get_deep_link().output_response_form\<close>.
\<close>

record message_launch =
  ml_get_launch_id :: string
  get_launch_data :: pydict
  get_iss :: "exc + string"
  is_deep_link_launch :: bool
  check_teacher_access :: bool
  check_teaching_assistant_access :: bool
  check_student_access :: bool
  has_ags :: bool
  has_nrps :: bool
  get_ags :: ags_service
  get_nrps :: nrps_service
  output_response_form :: "deep_link_resource list \<Rightarrow> exc + string"

text \<open>The calls a handler makes into the library's services, in order.\<close>

datatype ext_call =
    Call_super_validate_nonce
  | Call_put_grade grade "line_item option"
  | Call_find_or_create_lineitem line_item
  | Call_get_grades "line_item option"
  | Call_get_members
  | Call_output_response_form "deep_link_resource list"

type_synonym 'a outcome = "(exc + 'a) \<times> ext_call list"


section \<open>ExtendedDjangoMessageLaunch\<close>

text \<open>
  \<^verbatim>\<open>validate_nonce\<close> (lines 26-40). \<open>super_validate_nonce\<close> is the library's
  \<^verbatim>\<open>DjangoMessageLaunch.validate_nonce\<close> on this launch. The issuer is read first
  (line 36), and an exception of \<^verbatim>\<open>get_iss\<close> leaves the method there.
\<close>

definition validate_nonce ::
  "message_launch \<Rightarrow> (message_launch \<Rightarrow> exc + message_launch) \<Rightarrow> message_launch outcome" where
  "validate_nonce self super_validate_nonce =
     (case get_iss self of
        Inl e \<Rightarrow> (Inl e, [])
      | Inr iss \<Rightarrow>
          let deep_link_launch = is_deep_link_launch self
          in if iss = ''http://imsglobal.org'' \<and> deep_link_launch
             then (Inr self, [])
             else (super_validate_nonce self, [Call_super_validate_nonce]))"


section \<open>CachedLTIView\<close>

datatype view = LaunchDataView | CompleteDeepLinkView | SetScoreView | ScoreboardView

text \<open>\<^verbatim>\<open>CachedLTIView.get_launch_id\<close> (lines 75-76).\<close>

definition CachedLTIView_get_launch_id :: "request \<Rightarrow> string option" where
  "CachedLTIView_get_launch_id req =
     (case POST req ''launch_id'' of
        Some v \<Rightarrow> Some v
      | None \<Rightarrow> kwargs req ''launch_id'')"

text \<open>\<^verbatim>\<open>SetScoreView.get_launch_id\<close> (lines 227-228).\<close>

definition SetScoreView_get_launch_id :: "request \<Rightarrow> exc + string" where
  "SetScoreView_get_launch_id req =
     (case kwargs req ''launch_id'' of
        None \<Rightarrow> Inl (KeyError (PStr ''launch_id''))
      | Some v \<Rightarrow> Inr v)"

text \<open>\<^verbatim>\<open>self.get_launch_id()\<close>, resolved by the class of the view.\<close>

definition get_launch_id :: "view \<Rightarrow> request \<Rightarrow> exc + string option" where
  "get_launch_id v req =
     (case v of
        SetScoreView \<Rightarrow>
          (case SetScoreView_get_launch_id req of Inl e \<Rightarrow> Inl e | Inr i \<Rightarrow> Inr (Some i))
      | _ \<Rightarrow> Inr (CachedLTIView_get_launch_id req))"

type_synonym cache = "string \<rightharpoonup> message_launch"

text \<open>
  Modelled from the spec: the library's \<^verbatim>\<open>from_cache\<close> class method, which is not part
  of the repository. Given a launch id, it fetches the matching launch state from the
  cache, and fails if the id is absent or no such id is cached.
\<close>

definition from_cache :: "cache \<Rightarrow> string option \<Rightarrow> exc + message_launch" where
  "from_cache c launch_id =
     (case launch_id of
        None \<Rightarrow> Inl (LtiException ''Launch data not found'')
      | Some i \<Rightarrow>
          (case c i of
             None \<Rightarrow> Inl (LtiException ''Launch data not found'')
           | Some ml \<Rightarrow> Inr ml))"

text \<open>\<^verbatim>\<open>CachedLTIView.get_message_launch\<close> (lines 78-83).\<close>

definition CachedLTIView_get_message_launch ::
  "cache \<Rightarrow> view \<Rightarrow> request \<Rightarrow> exc + message_launch" where
  "CachedLTIView_get_message_launch c v req =
     (case get_launch_id v req of
        Inl e \<Rightarrow> Inl e
      | Inr launch_id \<Rightarrow> from_cache c launch_id)"


section \<open>LaunchView\<close>

text \<open>\<^verbatim>\<open>LaunchView.get_template_names\<close> (lines 120-132).\<close>

definition LaunchView_get_template_names :: "message_launch \<Rightarrow> exc + string list" where
  "LaunchView_get_template_names ml =
     (if check_teacher_access ml \<or> check_teaching_assistant_access ml then
        (if is_deep_link_launch ml then Inr [''deep_link.html'']
         else Inr [''teacher.html''])
      else if check_student_access ml then Inr [''student.html'']
      else Inl (PyException ''You have an unknown role.''))"

text \<open>\<^verbatim>\<open>LaunchView.get_special_word\<close> (lines 134-147).\<close>

definition LaunchView_get_special_word :: "message_launch \<Rightarrow> exc + pyval" where
  "LaunchView_get_special_word ml =
     attr_get
       (dict_get (get_launch_data ml) ''https://purl.imsglobal.org/spec/lti/claim/custom''
          (PDict []))
       ''special_word'' PNone"

text \<open>\<^verbatim>\<open>LaunchView.get_context_data\<close> (lines 149-161).\<close>

definition LaunchView_get_context_data :: "message_launch \<Rightarrow> exc + pydict" where
  "LaunchView_get_context_data ml =
     (let message_launch_data = get_launch_data ml;
          message_type = dict_get message_launch_data
            ''https://purl.imsglobal.org/spec/lti/claim/message_type'' PNone
      in case LaunchView_get_special_word ml of
           Inl e \<Rightarrow> Inl e
         | Inr special_word \<Rightarrow>
             Inr [(''page_title'', PStr ''LTI 1.3 example''),
                  (''launch_data'', PDict message_launch_data),
                  (''launch_id'', PStr (ml_get_launch_id ml)),
                  (''curr_user_name'', dict_get message_launch_data ''name'' (PStr [])),
                  (''curr_diff'', special_word),
                  (''special_word'', special_word),
                  (''message_type'', message_type)])"

text \<open>
  \<^verbatim>\<open>LaunchView.post\<close> (lines 117-118): the context is computed first, then
  \<^verbatim>\<open>render_to_response\<close> asks for the template names.
\<close>

definition LaunchView_post :: "message_launch \<Rightarrow> exc + response" where
  "LaunchView_post ml =
     (case LaunchView_get_context_data ml of
        Inl e \<Rightarrow> Inl e
      | Inr ctx \<Rightarrow>
          (case LaunchView_get_template_names ml of
             Inl e \<Rightarrow> Inl e
           | Inr names \<Rightarrow> Inr (TemplateResponse names (ContextDict ctx))))"


section \<open>LaunchDataView\<close>

text \<open>
  \<^verbatim>\<open>LaunchDataView.get\<close> (lines 170-177); the rendered page is kept as the template
  name and the context it is rendered with.
\<close>

definition LaunchDataView_get :: "message_launch \<Rightarrow> response outcome" where
  "LaunchDataView_get ml =
     (let message_launch_data = get_launch_data ml
      in (Inr (TemplateResponse [''launch_data.html'']
            (ContextDict
               [(''launch_id'', PStr (ml_get_launch_id ml)),
                (''launch_data'', PDict message_launch_data),
                (''custom_params'',
                   dict_get message_launch_data
                     ''https://purl.imsglobal.org/spec/lti/claim/custom'' (PDict []))])),
          []))"


section \<open>CompleteDeepLinkView\<close>

text \<open>
  \<^verbatim>\<open>CompleteDeepLinkView.get_deep_link_resource\<close> (lines 193-203);
  \<^verbatim>\<open>reverse('game-launch')\<close> is \<^verbatim>\<open>/launch/\<close> by \<^verbatim>\<open>urls.py\<close>.
\<close>

definition get_deep_link_resource :: "request \<Rightarrow> deep_link_resource" where
  "get_deep_link_resource req =
     (let launch_url = build_absolute_uri req ''/launch/'';
          special_word = POST req ''special-word''
      in \<lparr>dl_url = launch_url,
          dl_custom_params = [(''special_word'', opt_str special_word)],
          dl_title = ''Activity with the special word '' @ [CHR 0x22]
            @ format_str special_word @ [CHR 0x22]\<rparr>)"

text \<open>\<^verbatim>\<open>CompleteDeepLinkView.post\<close> (lines 205-212).\<close>

definition CompleteDeepLinkView_post :: "message_launch \<Rightarrow> request \<Rightarrow> response outcome" where
  "CompleteDeepLinkView_post ml req =
     (if \<not> is_deep_link_launch ml then
        (Inr (HttpResponseForbidden ''Must be a deep link!''), [])
      else
        let resource = get_deep_link_resource req
        in (case output_response_form ml [resource] of
              Inl e \<Rightarrow> Inl e
            | Inr html \<Rightarrow> Inr (HttpResponse 200 html),
            [Call_output_response_form [resource]]))"


section \<open>SetScoreView and ScoreboardView\<close>

text \<open>
  The resource-link id, read the same way at lines 231-232 and 289-290:
  \<^verbatim>\<open>get_launch_data().get('.../claim/resource_link', {}).get('id')\<close>.
\<close>

definition resource_link_id :: "message_launch \<Rightarrow> exc + pyval" where
  "resource_link_id ml =
     attr_get
       (dict_get (get_launch_data ml)
          ''https://purl.imsglobal.org/spec/lti/claim/resource_link'' (PDict []))
       ''id'' PNone"

text \<open>
  The line item built at lines 256-261 and again at lines 301-306: tag, maximum and
  label are set, the resource id only when the resource-link id is truthy.
\<close>

definition score_line_item :: "pyval \<Rightarrow> line_item" where
  "score_line_item rlid =
     (let sc_line_item = LineItem\<lparr>li_tag := Some ''score'', li_score_maximum := Some 100,
            li_label := Some ''Score''\<rparr>
      in if truthy rlid then sc_line_item\<lparr>li_resource_id := Some rlid\<rparr> else sc_line_item)"

text \<open>
  The \<^verbatim>\<open>try\<close> block's two exits (lines 275-278): a result becomes a success payload, a
  \<open>LtiServiceException\<close> a failure payload, and any other exception propagates.
\<close>

definition score_response :: "exc + pydict \<Rightarrow> exc + response" where
  "score_response r =
     (case r of
        Inr result \<Rightarrow>
          Inr (JsonResponse [(''success'', PBool True),
                             (''result'', dict_get result ''body'' PNone)])
      | Inl (LtiServiceException e) \<Rightarrow>
          Inr (JsonResponse [(''success'', PBool False), (''result'', PStr e)])
      | Inl e \<Rightarrow> Inl e)"

text \<open>
  The library's \<^verbatim>\<open>Grade.set_score_given\<close>: it refuses a negative score with a plain
  \<open>LtiException\<close>.
\<close>

definition set_score_given :: "int \<Rightarrow> exc + int" where
  "set_score_given v =
     (if v < 0
      then Inl (LtiException
             ''Invalid scoreGiven value: score must be positive number (including 0)'')
      else Inr v)"

text \<open>
  The \<open>Grade\<close> built by the chained setters at lines 248-254 and again at lines
  266-272. \<^verbatim>\<open>set_score_given\<close> comes first and is the one setter that can refuse its
  argument here (the maximum is the constant 100).
\<close>

definition build_grade ::
  "int \<Rightarrow> string \<Rightarrow> string option \<Rightarrow> string option \<Rightarrow> pyval \<Rightarrow> exc + grade" where
  "build_grade score timestamp activity_progress grading_progress sub =
     (case set_score_given score of
        Inl e \<Rightarrow> Inl e
      | Inr given \<Rightarrow>
          Inr \<lparr>g_score_given = given, g_score_maximum = 100,
               g_timestamp = timestamp,
               g_activity_progress = activity_progress,
               g_grading_progress = grading_progress,
               g_user_id = sub\<rparr>)"

text \<open>
  \<^verbatim>\<open>SetScoreView.post\<close> (lines 230-278). An exception raised while the grade is built
  is raised inside the \<^verbatim>\<open>try\<close> block, before any call to the grade service.
\<close>

definition SetScoreView_post :: "env \<Rightarrow> message_launch \<Rightarrow> request \<Rightarrow> response outcome" where
  "SetScoreView_post rt ml req =
     (case resource_link_id ml of
        Inl e \<Rightarrow> (Inl e, [])
      | Inr rlid \<Rightarrow>
          if \<not> has_ags ml then
            (Inr (HttpResponseForbidden ''This launch doesn't provide a grades service!''), [])
          else
            let sub = dict_get (get_launch_data ml) ''sub'' PNone;
                timestamp = utcnow_isoformat rt @ ''Z''
            in (case POST req ''score'' of
                  None \<Rightarrow> (Inl (TypeError ''int() argument must be a string''), [])
                | Some score_text \<Rightarrow>
                    (case py_int rt score_text of
                       None \<Rightarrow> (Inl (ValueError ''invalid literal for int()''), [])
                     | Some score \<Rightarrow>
                         let activity_progress = POST req ''activity-progress'';
                             grading_progress = POST req ''grading-progress'';
                             ags = get_ags ml
                         in (case can_create_lineitem ags of
                               Inl e \<Rightarrow> (score_response (Inl e), [])
                             | Inr can_create \<Rightarrow>
                                 if can_create then
                                   (case build_grade score timestamp activity_progress
                                           grading_progress sub of
                                      Inl e \<Rightarrow> (score_response (Inl e), [])
                                    | Inr sc \<Rightarrow>
                                        let sc_line_item = score_line_item rlid
                                        in (score_response
                                              (put_grade ags sc (Some sc_line_item)),
                                            [Call_put_grade sc (Some sc_line_item)]))
                                 else
                                   (case build_grade score timestamp activity_progress
                                           grading_progress sub of
                                      Inl e \<Rightarrow> (score_response (Inl e), [])
                                    | Inr sc \<Rightarrow>
                                        (score_response (put_grade ags sc None),
                                         [Call_put_grade sc None]))))))"

text \<open>The scores of the scoreboard (lines 298-312).\<close>

definition fetch_scores :: "ags_service \<Rightarrow> pyval \<Rightarrow> (pydict list) outcome" where
  "fetch_scores ags rlid =
     (case can_create_lineitem ags of
        Inl e \<Rightarrow> (Inl e, [])
      | Inr can_create \<Rightarrow>
          if can_create then
            let item = score_line_item rlid
            in (case find_or_create_lineitem ags item of
                  Inl e \<Rightarrow> (Inl e, [Call_find_or_create_lineitem item])
                | Inr found \<Rightarrow>
                    (get_grades ags (Some found),
                     [Call_find_or_create_lineitem item, Call_get_grades (Some found)]))
          else (get_grades ags None, [Call_get_grades None]))"

text \<open>The loop of lines 316-319 over the members.\<close>

fun annotate_members :: "env \<Rightarrow> pydict list \<Rightarrow> exc + pydict list" where
  "annotate_members rt [] = Inr []"
| "annotate_members rt (m # ms) =
     (case dict_item m ''roles'' of
        Inl e \<Rightarrow> Inl e
      | Inr roles \<Rightarrow>
          (case TeacherRole_check rt roles of
             Inl e \<Rightarrow> Inl e
           | Inr t \<Rightarrow>
               (case StudentRole_check rt roles of
                  Inl e \<Rightarrow> Inl e
                | Inr s \<Rightarrow>
                    (case annotate_members rt ms of
                       Inl e \<Rightarrow> Inl e
                     | Inr ms' \<Rightarrow>
                         Inr (dict_set (dict_set m ''teacher'' (PBool t)) ''student'' (PBool s)
                              # ms')))))"

text \<open>
  The dictionary comprehension of line 323. The members are objects shared between the
  list and the dictionary, so the dictionary holds the position of a member in the list
  (its reference); \<open>i\<close> is the position of the head of the remaining list. A later member
  with the same key replaces an earlier one.
\<close>

fun member_by_user ::
  "pydict list \<Rightarrow> nat \<Rightarrow> (pyval \<rightharpoonup> nat) \<Rightarrow> exc + (pyval \<rightharpoonup> nat)" where
  "member_by_user [] i acc = Inr acc"
| "member_by_user (m # ms) i acc =
     (case dict_item m ''user_id'' of
        Inl e \<Rightarrow> Inl e
      | Inr k \<Rightarrow>
          if hashable k then member_by_user ms (Suc i) (acc(dict_key k \<mapsto> i))
          else Inl (TypeError ''unhashable type''))"

text \<open>
  The loop of lines 324-325: \<^verbatim>\<open>member_by_user[s['userId']]['score'] = s\<close> writes into
  the member object, which the list shares.
\<close>

fun join_scores ::
  "(pyval \<rightharpoonup> nat) \<Rightarrow> pydict list \<Rightarrow> pydict list \<Rightarrow> exc + pydict list" where
  "join_scores by_user members [] = Inr members"
| "join_scores by_user members (s # ss) =
     (case dict_item s ''userId'' of
        Inl e \<Rightarrow> Inl e
      | Inr k \<Rightarrow>
          if \<not> hashable k then Inl (TypeError ''unhashable type'')
          else
            (case by_user (dict_key k) of
               None \<Rightarrow> Inl (KeyError k)
             | Some i \<Rightarrow>
                 join_scores by_user
                   (members[i := dict_set (members ! i) ''score'' (PDict s)]) ss))"

text \<open>Lines 323-325 together.\<close>

definition scoreboard_join :: "pydict list \<Rightarrow> pydict list \<Rightarrow> exc + pydict list" where
  "scoreboard_join members scores =
     (case member_by_user members 0 Map.empty of
        Inl e \<Rightarrow> Inl e
      | Inr by_user \<Rightarrow> join_scores by_user members scores)"

text \<open>
  Lines 314-327: the roster is fetched, annotated and joined with the scores;
  \<^verbatim>\<open>ctx['members']\<close> holds the list whose members the join has written into.
\<close>

definition scoreboard_members ::
  "env \<Rightarrow> message_launch \<Rightarrow> request \<Rightarrow> pydict list \<Rightarrow> exc + tctx" where
  "scoreboard_members rt ml req scores =
     (case get_members (get_nrps ml) of
        Inl e \<Rightarrow> Inl e
      | Inr members \<Rightarrow>
          (case annotate_members rt members of
             Inl e \<Rightarrow> Inl e
           | Inr annotated \<Rightarrow>
               (case scoreboard_join annotated scores of
                  Inl e \<Rightarrow> Inl e
                | Inr joined \<Rightarrow>
                    Inr (ContextDict
                      (dict_set (base_context req) ''members'' (PList (map PDict joined)))))))"

text \<open>\<^verbatim>\<open>ScoreboardView.get_context_data\<close> (lines 286-327).\<close>

definition ScoreboardView_get_context_data ::
  "env \<Rightarrow> message_launch \<Rightarrow> request \<Rightarrow> tctx outcome" where
  "ScoreboardView_get_context_data rt ml req =
     (case resource_link_id ml of
        Inl e \<Rightarrow> (Inl e, [])
      | Inr rlid \<Rightarrow>
          if \<not> has_nrps ml then
            (Inr (ContextObject (HttpResponseForbidden ''Don't have names and roles!'')), [])
          else if \<not> has_ags ml then
            (Inr (ContextObject (HttpResponseForbidden ''Don't have grades!'')), [])
          else
            (case fetch_scores (get_ags ml) rlid of
               (Inl e, calls) \<Rightarrow> (Inl e, calls)
             | (Inr scores, calls) \<Rightarrow>
                 (scoreboard_members rt ml req scores, calls @ [Call_get_members])))"

text \<open>
  The \<^verbatim>\<open>get\<close> that \<open>ScoreboardView\<close> inherits from the framework's \<open>TemplateView\<close>:
  \<^verbatim>\<open>return self.render_to_response(self.get_context_data(**kwargs))\<close>, with
  \<^verbatim>\<open>template_name = 'scoreboard.html'\<close> (line 284). \<open>LaunchView.post\<close> (lines 117-118)
  is written the same way.
\<close>

definition ScoreboardView_get :: "env \<Rightarrow> message_launch \<Rightarrow> request \<Rightarrow> response outcome" where
  "ScoreboardView_get rt ml req =
     (case ScoreboardView_get_context_data rt ml req of
        (Inl e, calls) \<Rightarrow> (Inl e, calls)
      | (Inr context, calls) \<Rightarrow> (Inr (TemplateResponse [''scoreboard.html''] context), calls))"


section \<open>Dispatch of the cached views\<close>

text \<open>
  The framework's \<^verbatim>\<open>View.dispatch\<close> picks the handler by the HTTP verb of the request:
  \<open>CompleteDeepLinkView\<close> allows only POST (line 191); the other views answer the verbs
  they define a handler for (HEAD is answered by \<^verbatim>\<open>get\<close>), OPTIONS with the framework's
  empty response, and anything else with 405.
\<close>

definition View_dispatch ::
  "env \<Rightarrow> view \<Rightarrow> message_launch \<Rightarrow> request \<Rightarrow> response outcome" where
  "View_dispatch rt v ml req =
     (case (v, req_method req) of
        (LaunchDataView, M_GET) \<Rightarrow> LaunchDataView_get ml
      | (LaunchDataView, M_HEAD) \<Rightarrow> LaunchDataView_get ml
      | (CompleteDeepLinkView, M_POST) \<Rightarrow> CompleteDeepLinkView_post ml req
      | (SetScoreView, M_POST) \<Rightarrow> SetScoreView_post rt ml req
      | (ScoreboardView, M_GET) \<Rightarrow> ScoreboardView_get rt ml req
      | (ScoreboardView, M_HEAD) \<Rightarrow> ScoreboardView_get rt ml req
      | (CompleteDeepLinkView, _) \<Rightarrow> (Inr HttpResponseNotAllowed, [])
      | (_, M_OPTIONS) \<Rightarrow> (Inr (HttpResponse 200 []), [])
      | _ \<Rightarrow> (Inr HttpResponseNotAllowed, []))"

text \<open>
  \<^verbatim>\<open>LTIView.dispatch\<close> (lines 56-58) with the \<^verbatim>\<open>get_message_launch\<close> of
  \<open>CachedLTIView\<close>: the launch is loaded before the handler is chosen.
\<close>

definition CachedLTIView_dispatch ::
  "env \<Rightarrow> cache \<Rightarrow> view \<Rightarrow> request \<Rightarrow> response outcome" where
  "CachedLTIView_dispatch rt c v req =
     (case CachedLTIView_get_message_launch c v req of
        Inl e \<Rightarrow> (Inl e, [])
      | Inr message_launch \<Rightarrow> View_dispatch rt v message_launch req)"


section \<open>The life of the launch cache\<close>

text \<open>
  Modelled from the spec: the library's validation of an inbound launch request, which is
  not part of the repository. A launch state is created by validating a signed launch
  request and persisted to the cache keyed by its id; a request that fails validation
  creates nothing. \<open>validated\<close> is the outcome of that validation.
\<close>

definition mint :: "cache \<Rightarrow> exc + message_launch \<Rightarrow> cache" where
  "mint c validated =
     (case validated of
        Inl e \<Rightarrow> c
      | Inr ml \<Rightarrow> c(ml_get_launch_id ml \<mapsto> ml))"

text \<open>
  The requests that touch launch state: a launch POST, handled by \<open>LaunchView\<close> on the
  validated launch, and a request to one of the cached views. No view writes to the
  launch cache itself: \<^verbatim>\<open>launch_data_storage\<close> is only handed to the library (lines 61, 81
  and 103).
\<close>

datatype incoming = Launch "exc + message_launch" | Cached view request

fun serve :: "env \<Rightarrow> cache \<Rightarrow> incoming \<Rightarrow> cache \<times> response outcome" where
  "serve rt c (Launch validated) =
     (mint c validated,
      case validated of
        Inl e \<Rightarrow> (Inl e, [])
      | Inr ml \<Rightarrow> (LaunchView_post ml, []))"
| "serve rt c (Cached v req) = (c, CachedLTIView_dispatch rt c v req)"

fun cache_after :: "env \<Rightarrow> cache \<Rightarrow> incoming list \<Rightarrow> cache" where
  "cache_after rt c [] = c"
| "cache_after rt c (r # rs) = cache_after rt (fst (serve rt c r)) rs"


section \<open>Vocabulary of the scoreboard join\<close>

text \<open>
  The dictionary key under which a roster member is filed (its \<^verbatim>\<open>user_id\<close>), the key a
  score entry is looked up with (its \<^verbatim>\<open>userId\<close>), and the position of the member that a
  score entry is written to.
\<close>

definition member_key :: "pydict \<Rightarrow> pyval option" where
  "member_key m = map_option dict_key (map_of m ''user_id'')"

definition score_key :: "pydict \<Rightarrow> pyval option" where
  "score_key s = map_option dict_key (map_of s ''userId'')"

definition target :: "(pyval \<rightharpoonup> nat) \<Rightarrow> pydict \<Rightarrow> nat option" where
  "target by_user s = (case score_key s of None \<Rightarrow> None | Some k \<Rightarrow> by_user k)"


section \<open>Example inputs\<close>

definition ex_ags :: ags_service where
  "ex_ags = \<lparr>can_create_lineitem = Inr True,
     lineitem = Some ''https://lms.example/lineitems/7'',
     put_grade = (\<lambda>g li. Inr [(''body'', PStr ''ok'')]),
     find_or_create_lineitem = (\<lambda>li. Inr (li\<lparr>li_id := Some ''https://lms.example/lineitems/7''\<rparr>)),
     get_grades = (\<lambda>li. Inr [])\<rparr>"

definition ex_nrps :: nrps_service where
  "ex_nrps = \<lparr>get_members = Inr []\<rparr>"

definition ex_launch :: message_launch where
  "ex_launch = \<lparr>ml_get_launch_id = ''lti1p3-launch-1'',
     get_launch_data = [(''sub'', PStr ''u1''),
        (''https://purl.imsglobal.org/spec/lti/claim/resource_link'', PDict [(''id'', PStr ''rl1'')])],
     get_iss = Inr ''https://lms.example'',
     is_deep_link_launch = False,
     check_teacher_access = True,
     check_teaching_assistant_access = False,
     check_student_access = False,
     has_ags = True,
     has_nrps = True,
     get_ags = ex_ags,
     get_nrps = ex_nrps,
     output_response_form = (\<lambda>rs. Inr ''<form></form>'')\<rparr>"

definition ex_super_validate_nonce :: "message_launch \<Rightarrow> exc + message_launch" where
  "ex_super_validate_nonce ml = Inl (LtiException ''Invalid Nonce'')"

definition ex_env :: env where
  "ex_env = \<lparr>utcnow_isoformat = ''2024-05-01T12:00:00'',
     py_int = (\<lambda>s. if s = ''85'' then Some 85 else if s = ''-5'' then Some (- 5) else None),
     TeacherRole_check = (\<lambda>roles. Inr (roles = PList [PStr ''Instructor''])),
     StudentRole_check = (\<lambda>roles. Inr (roles = PList [PStr ''Learner'']))\<rparr>"

definition ex_request :: request where
  "ex_request = \<lparr>req_method = M_POST,
     POST = [''launch_id'' \<mapsto> ''from-post'', ''score'' \<mapsto> ''85'',
             ''activity-progress'' \<mapsto> ''Completed'', ''grading-progress'' \<mapsto> ''FullyGraded'',
             ''special-word'' \<mapsto> ''banana''],
     kwargs = [''launch_id'' \<mapsto> ''from-url''],
     build_absolute_uri = (\<lambda>p. ''https://tool.example'' @ p),
     base_context = [(''launch_id'', PStr ''from-url'')]\<rparr>"

definition failing_ags :: ags_service where
  "failing_ags = ex_ags\<lparr>put_grade := (\<lambda>g li.
      Inl (LtiServiceException ''HTTP response [https://lms.example/scores]: 500 - down''))\<rparr>"

definition score_only_ags :: ags_service where
  "score_only_ags = ex_ags\<lparr>can_create_lineitem := Inr False, lineitem := None\<rparr>"

definition board_members :: "pydict list" where
  "board_members =
     [[(''user_id'', PStr ''u1''), (''name'', PStr ''Ada''), (''roles'', PList [PStr ''Learner''])],
      [(''user_id'', PStr ''u2''), (''name'', PStr ''Bob''), (''roles'', PList [PStr ''Learner''])],
      [(''user_id'', PStr ''u3''), (''name'', PStr ''Eve''),
       (''roles'', PList [PStr ''Instructor''])]]"

definition board_scores :: "pydict list" where
  "board_scores =
     [[(''userId'', PStr ''u1''), (''resultScore'', PInt 85)],
      [(''userId'', PStr ''u2''), (''resultScore'', PInt 40)]]"

definition board_launch :: "pydict list \<Rightarrow> pydict list \<Rightarrow> message_launch" where
  "board_launch members scores =
     ex_launch\<lparr>get_ags := ex_ags\<lparr>get_grades := (\<lambda>li. Inr scores)\<rparr>,
               get_nrps := \<lparr>get_members = Inr members\<rparr>\<rparr>"

definition board_request :: request where
  "board_request = ex_request\<lparr>req_method := M_GET, POST := Map.empty\<rparr>"


definition board_calls :: "ext_call list" where
  "board_calls =
     [Call_find_or_create_lineitem
        \<lparr>li_id = None, li_tag = Some ''score'', li_score_maximum = Some 100,
          li_label = Some ''Score'', li_resource_id = Some (PStr ''rl1'')\<rparr>,
      Call_get_grades
        (Some \<lparr>li_id = Some ''https://lms.example/lineitems/7'', li_tag = Some ''score'',
                li_score_maximum = Some 100, li_label = Some ''Score'',
                li_resource_id = Some (PStr ''rl1'')\<rparr>)]"

definition board_annotated :: "pydict list" where
  "board_annotated =
     [[(''user_id'', PStr ''u1''), (''name'', PStr ''Ada''), (''roles'', PList [PStr ''Learner'']),
       (''teacher'', PBool False), (''student'', PBool True)],
      [(''user_id'', PStr ''u2''), (''name'', PStr ''Bob''), (''roles'', PList [PStr ''Learner'']),
       (''teacher'', PBool False), (''student'', PBool True)],
      [(''user_id'', PStr ''u3''), (''name'', PStr ''Eve''),
       (''roles'', PList [PStr ''Instructor'']),
       (''teacher'', PBool True), (''student'', PBool False)]]"

definition board_joined :: "pydict list" where
  "board_joined =
     [[(''user_id'', PStr ''u1''), (''name'', PStr ''Ada''), (''roles'', PList [PStr ''Learner'']),
       (''teacher'', PBool False), (''student'', PBool True),
       (''score'', PDict [(''userId'', PStr ''u1''), (''resultScore'', PInt 85)])],
      [(''user_id'', PStr ''u2''), (''name'', PStr ''Bob''), (''roles'', PList [PStr ''Learner'']),
       (''teacher'', PBool False), (''student'', PBool True),
       (''score'', PDict [(''userId'', PStr ''u2''), (''resultScore'', PInt 40)])],
      [(''user_id'', PStr ''u3''), (''name'', PStr ''Eve''),
       (''roles'', PList [PStr ''Instructor'']),
       (''teacher'', PBool True), (''student'', PBool False)]]"

definition launch_1_request :: request where
  "launch_1_request = ex_request\<lparr>req_method := M_GET, POST := Map.empty,
     kwargs := [''launch_id'' \<mapsto> ''lti1p3-launch-1'']\<rparr>"

definition negative_score_request :: request where
  "negative_score_request = ex_request\<lparr>POST := (POST ex_request)(''score'' \<mapsto> ''-5'')\<rparr>"

definition no_score_request :: request where
  "no_score_request = ex_request\<lparr>POST := Map.empty\<rparr>"

definition bad_link_launch :: message_launch where
  "bad_link_launch =
     ex_launch\<lparr>get_launch_data := [(''sub'', PStr ''u1''),
        (''https://purl.imsglobal.org/spec/lti/claim/resource_link'', PStr ''rl1'')]\<rparr>"

definition empty_link_launch :: message_launch where
  "empty_link_launch =
     ex_launch\<lparr>get_launch_data := [(''sub'', PStr ''u1''),
        (''https://purl.imsglobal.org/spec/lti/claim/resource_link'',
         PDict [(''id'', PStr [])])]\<rparr>"

definition scored_members :: "pydict list" where
  "scored_members =
     [[(''user_id'', PStr ''u1''), (''name'', PStr ''Ada''), (''roles'', PList [PStr ''Learner'']),
       (''score'', PInt 0)]]"

definition solo_members :: "pydict list" where
  "solo_members =
     [[(''user_id'', PStr ''u1''), (''name'', PStr ''Ada''),
       (''roles'', PList [PStr ''Learner''])]]"

definition two_scores :: "pydict list" where
  "two_scores =
     [[(''userId'', PStr ''u1''), (''resultScore'', PInt 85)],
      [(''userId'', PStr ''u1''), (''resultScore'', PInt 90)]]"

definition dup_members :: "pydict list" where
  "dup_members =
     [[(''user_id'', PStr ''u1''), (''name'', PStr ''Ada''), (''roles'', PList [PStr ''Learner''])],
      [(''user_id'', PStr ''u1''), (''name'', PStr ''Ada L.''),
       (''roles'', PList [PStr ''Learner''])]]"

definition dup_scores :: "pydict list" where
  "dup_scores = [[(''userId'', PStr ''u1''), (''resultScore'', PInt 85)]]"


section \<open>Properties of the views\<close>

text \<open>
  Claim C6, as amended. For a launch whose issuer can be read, \<^verbatim>\<open>validate_nonce\<close> leaves
  the library's nonce validation out exactly when the issuer is
  \<^verbatim>\<open>http://imsglobal.org\<close> and the launch is a deep-link launch: then the launch itself
  is returned and no call is made. In every other such case the library's validation is
  called once and its outcome is the outcome.
\<close>

theorem validate_nonce_skipped_iff:
  assumes "get_iss self = Inr iss"
  shows "(snd (validate_nonce self super_validate_nonce) = [])
            = (iss = ''http://imsglobal.org'' \<and> is_deep_link_launch self)
         \<and> (iss = ''http://imsglobal.org'' \<and> is_deep_link_launch self
              \<longrightarrow> validate_nonce self super_validate_nonce = (Inr self, []))
         \<and> (\<not> (iss = ''http://imsglobal.org'' \<and> is_deep_link_launch self)
              \<longrightarrow> validate_nonce self super_validate_nonce
                    = (super_validate_nonce self, [Call_super_validate_nonce]))"
  using assms by (simp add: validate_nonce_def Let_def)

theorem validate_nonce_skipped_iff_witness:
  "validate_nonce
       (ex_launch\<lparr>get_iss := Inr ''http://imsglobal.org'', is_deep_link_launch := True\<rparr>)
       ex_super_validate_nonce
     = (Inr (ex_launch\<lparr>get_iss := Inr ''http://imsglobal.org'',
                        is_deep_link_launch := True\<rparr>), [])
   \<and> validate_nonce (ex_launch\<lparr>get_iss := Inr ''http://imsglobal.org''\<rparr>)
       ex_super_validate_nonce
     = (Inl (LtiException ''Invalid Nonce''), [Call_super_validate_nonce])
   \<and> validate_nonce (ex_launch\<lparr>is_deep_link_launch := True\<rparr>) ex_super_validate_nonce
     = (Inl (LtiException ''Invalid Nonce''), [Call_super_validate_nonce])"
proof -
  have a: "get_iss (ex_launch\<lparr>get_iss := Inr ''http://imsglobal.org'',
                            is_deep_link_launch := True\<rparr>) = Inr ''http://imsglobal.org''"
    and b: "get_iss (ex_launch\<lparr>get_iss := Inr ''http://imsglobal.org''\<rparr>)
              = Inr ''http://imsglobal.org''"
    and c: "get_iss (ex_launch\<lparr>is_deep_link_launch := True\<rparr>) = Inr ''https://lms.example''"
    by (simp_all add: ex_launch_def)
  show ?thesis
    using validate_nonce_skipped_iff [OF a, of ex_super_validate_nonce]
      validate_nonce_skipped_iff [OF b, of ex_super_validate_nonce]
      validate_nonce_skipped_iff [OF c, of ex_super_validate_nonce]
    by (simp add: ex_launch_def ex_super_validate_nonce_def)
qed

text \<open>
  Claim C6 as stated fails on a launch without an issuer: \<^verbatim>\<open>get_iss\<close> raises at line 36,
  so the library's nonce validation is not performed, although the launch is not the
  deep-link launch of the test platform.
\<close>

theorem validate_nonce_unreadable_issuer_counterexample:
  "is_deep_link_launch (ex_launch\<lparr>get_iss := Inl (LtiException ''iss is empty'')\<rparr>) = False
   \<and> validate_nonce (ex_launch\<lparr>get_iss := Inl (LtiException ''iss is empty'')\<rparr>)
       ex_super_validate_nonce
     = (Inl (LtiException ''iss is empty''), [])"
  by (simp add: validate_nonce_def ex_launch_def)

text \<open>
  Claim C7. For the cached views other than \<open>SetScoreView\<close> the launch id is the POST
  parameter \<^verbatim>\<open>launch_id\<close> when it is present and the URL argument otherwise. For
  \<open>SetScoreView\<close> it is the URL argument alone (a \<open>KeyError\<close> without one), whatever
  the POST parameters are.
\<close>

theorem get_launch_id_precedence:
  "(v \<noteq> SetScoreView \<longrightarrow>
      (\<forall>p. POST req ''launch_id'' = Some p \<longrightarrow> get_launch_id v req = Inr (Some p))
      \<and> (POST req ''launch_id'' = None \<longrightarrow> get_launch_id v req = Inr (kwargs req ''launch_id'')))
   \<and> (\<forall>u. kwargs req ''launch_id'' = Some u \<longrightarrow> get_launch_id SetScoreView req = Inr (Some u))
   \<and> (kwargs req ''launch_id'' = None \<longrightarrow>
        get_launch_id SetScoreView req = Inl (KeyError (PStr ''launch_id'')))
   \<and> get_launch_id SetScoreView (req\<lparr>POST := posted\<rparr>) = get_launch_id SetScoreView req"
  by (cases v)
     (simp_all add: get_launch_id_def CachedLTIView_get_launch_id_def
        SetScoreView_get_launch_id_def)

theorem get_launch_id_precedence_witness:
  "get_launch_id ScoreboardView ex_request = Inr (Some ''from-post'')
   \<and> get_launch_id ScoreboardView (ex_request\<lparr>POST := Map.empty\<rparr>) = Inr (Some ''from-url'')
   \<and> get_launch_id SetScoreView ex_request = Inr (Some ''from-url'')"
  using get_launch_id_precedence [of ScoreboardView ex_request Map.empty]
    get_launch_id_precedence [of ScoreboardView "ex_request\<lparr>POST := Map.empty\<rparr>" Map.empty]
  by (simp add: ex_request_def)

text \<open>
  Claim C4. The launch handler takes the deep-link template for a teacher or teaching
  assistant on a deep-link launch, the teacher template for a teacher or teaching
  assistant otherwise, the student template for a student who is neither, and raises
  \<^verbatim>\<open>Exception("You have an unknown role.")\<close> when no role check succeeds, in which case
  \<open>post\<close> raises and renders nothing. Whatever \<open>post\<close> renders is rendered with the
  names so chosen.
\<close>

theorem launch_template_selection:
  "((check_teacher_access ml \<or> check_teaching_assistant_access ml) \<and> is_deep_link_launch ml
       \<longrightarrow> LaunchView_get_template_names ml = Inr [''deep_link.html''])
   \<and> ((check_teacher_access ml \<or> check_teaching_assistant_access ml) \<and> \<not> is_deep_link_launch ml
       \<longrightarrow> LaunchView_get_template_names ml = Inr [''teacher.html''])
   \<and> (\<not> check_teacher_access ml \<and> \<not> check_teaching_assistant_access ml
        \<and> check_student_access ml
       \<longrightarrow> LaunchView_get_template_names ml = Inr [''student.html''])
   \<and> (\<not> check_teacher_access ml \<and> \<not> check_teaching_assistant_access ml
        \<and> \<not> check_student_access ml
       \<longrightarrow> LaunchView_get_template_names ml = Inl (PyException ''You have an unknown role.'')
           \<and> (\<exists>e. LaunchView_post ml = Inl e))
   \<and> (\<forall>r. LaunchView_post ml = Inr r \<longrightarrow>
         (\<exists>names ctx. LaunchView_get_template_names ml = Inr names
            \<and> r = TemplateResponse names (ContextDict ctx)))"
  by (auto simp add: LaunchView_get_template_names_def LaunchView_post_def
        split: sum.splits)

theorem launch_template_selection_witness:
  "LaunchView_get_template_names ex_launch = Inr [''teacher.html'']
   \<and> LaunchView_get_template_names (ex_launch\<lparr>is_deep_link_launch := True\<rparr>)
       = Inr [''deep_link.html'']
   \<and> LaunchView_get_template_names
        (ex_launch\<lparr>check_teacher_access := False, check_student_access := True\<rparr>)
       = Inr [''student.html'']
   \<and> LaunchView_get_template_names (ex_launch\<lparr>check_teacher_access := False\<rparr>)
       = Inl (PyException ''You have an unknown role.'')
   \<and> (\<exists>e. LaunchView_post (ex_launch\<lparr>check_teacher_access := False\<rparr>) = Inl e)"
  using launch_template_selection [of ex_launch]
    launch_template_selection [of "ex_launch\<lparr>is_deep_link_launch := True\<rparr>"]
    launch_template_selection
      [of "ex_launch\<lparr>check_teacher_access := False, check_student_access := True\<rparr>"]
    launch_template_selection [of "ex_launch\<lparr>check_teacher_access := False\<rparr>"]
  by (simp add: ex_launch_def)

text \<open>
  Claim C5. On a cached launch that is not a deep-link launch, the deep-link completion
  handler answers 403 and makes no call to the response builder. On a deep-link launch it
  calls the builder once, with the one resource of \<open>get_deep_link_resource\<close>, and answers
  with the builder's form (or raises what the builder raised).
\<close>

theorem complete_deep_link_guard:
  "(\<not> is_deep_link_launch ml \<longrightarrow>
      CompleteDeepLinkView_post ml req
        = (Inr (HttpResponseForbidden ''Must be a deep link!''), [])
      \<and> status_code (HttpResponseForbidden ''Must be a deep link!'') = 403)
   \<and> (is_deep_link_launch ml \<longrightarrow>
        snd (CompleteDeepLinkView_post ml req)
          = [Call_output_response_form [get_deep_link_resource req]]
        \<and> (\<forall>html. output_response_form ml [get_deep_link_resource req] = Inr html \<longrightarrow>
              fst (CompleteDeepLinkView_post ml req) = Inr (HttpResponse 200 html))
        \<and> (\<forall>e. output_response_form ml [get_deep_link_resource req] = Inl e \<longrightarrow>
              fst (CompleteDeepLinkView_post ml req) = Inl e))"
  by (simp add: CompleteDeepLinkView_post_def HttpResponseForbidden_def Let_def)

theorem complete_deep_link_guard_witness:
  "CompleteDeepLinkView_post ex_launch ex_request
     = (Inr (HttpResponse 403 ''Must be a deep link!''), [])
   \<and> CompleteDeepLinkView_post (ex_launch\<lparr>is_deep_link_launch := True\<rparr>) ex_request
     = (Inr (HttpResponse 200 ''<form></form>''),
        [Call_output_response_form
           [\<lparr>dl_url = ''https://tool.example/launch/'',
             dl_custom_params = [(''special_word'', PStr ''banana'')],
             dl_title = ''Activity with the special word '' @ [CHR 0x22] @ ''banana''
               @ [CHR 0x22]\<rparr>]])"
  using complete_deep_link_guard [of ex_launch ex_request]
    complete_deep_link_guard [of "ex_launch\<lparr>is_deep_link_launch := True\<rparr>" ex_request]
  by (simp add: ex_launch_def ex_request_def CompleteDeepLinkView_post_def
        HttpResponseForbidden_def get_deep_link_resource_def opt_str_def format_str_def)

text \<open>
  Claim C3. Whenever the score handler has called \<^verbatim>\<open>ags.put_grade\<close> and that call raised
  a \<open>LtiServiceException\<close>, the handler returns a JSON response with
  \<^verbatim>\<open>success = False\<close> and the exception's string form, and its status code is 200.
\<close>

theorem set_score_service_failure_payload:
  "Call_put_grade g li \<in> set (snd (SetScoreView_post rt ml req)) \<Longrightarrow>
   put_grade (get_ags ml) g li = Inl (LtiServiceException e) \<Longrightarrow>
   fst (SetScoreView_post rt ml req)
     = Inr (JsonResponse [(''success'', PBool False), (''result'', PStr e)])
   \<and> status_code (JsonResponse [(''success'', PBool False), (''result'', PStr e)]) = 200"
  by (auto simp add: SetScoreView_post_def build_grade_def set_score_given_def
        score_response_def Let_def
        split: sum.splits option.splits if_splits)

theorem set_score_service_failure_payload_witness:
  "Call_put_grade
      \<lparr>g_score_given = 85, g_score_maximum = 100, g_timestamp = ''2024-05-01T12:00:00Z'',
        g_activity_progress = Some ''Completed'', g_grading_progress = Some ''FullyGraded'',
        g_user_id = PStr ''u1''\<rparr>
      (Some \<lparr>li_id = None, li_tag = Some ''score'', li_score_maximum = Some 100,
              li_label = Some ''Score'', li_resource_id = Some (PStr ''rl1'')\<rparr>)
     \<in> set (snd (SetScoreView_post ex_env (ex_launch\<lparr>get_ags := failing_ags\<rparr>) ex_request))
   \<and> fst (SetScoreView_post ex_env (ex_launch\<lparr>get_ags := failing_ags\<rparr>) ex_request)
     = Inr (JsonResponse [(''success'', PBool False),
          (''result'', PStr ''HTTP response [https://lms.example/scores]: 500 - down'')])"
proof -
  let ?g = "\<lparr>g_score_given = 85, g_score_maximum = 100, g_timestamp = ''2024-05-01T12:00:00Z'',
        g_activity_progress = Some ''Completed'', g_grading_progress = Some ''FullyGraded'',
        g_user_id = PStr ''u1''\<rparr>"
  let ?li = "Some \<lparr>li_id = None, li_tag = Some ''score'', li_score_maximum = Some 100,
              li_label = Some ''Score'', li_resource_id = Some (PStr ''rl1'')\<rparr>"
  have called: "Call_put_grade ?g ?li
     \<in> set (snd (SetScoreView_post ex_env (ex_launch\<lparr>get_ags := failing_ags\<rparr>) ex_request))"
    by (simp add: SetScoreView_post_def build_grade_def set_score_given_def
          ex_env_def ex_launch_def ex_request_def
          failing_ags_def ex_ags_def resource_link_id_def attr_get_def dict_get_def
          score_line_item_def LineItem_def Let_def)
  have raised: "put_grade (get_ags (ex_launch\<lparr>get_ags := failing_ags\<rparr>)) ?g ?li
     = Inl (LtiServiceException ''HTTP response [https://lms.example/scores]: 500 - down'')"
    by (simp add: failing_ags_def)
  from set_score_service_failure_payload [OF called raised] called show ?thesis by simp
qed

text \<open>
  Claim C1, as amended. For a score POST on a launch with the grade service, whose
  resource-link claim is absent or a dictionary, and whose \<^verbatim>\<open>score\<close> parameter is an
  integer literal that is not negative: when the grade service answers that it can create
  line items, the handler builds the line item (tag \<^verbatim>\<open>score\<close>, maximum 100, label
  \<^verbatim>\<open>Score\<close>, resource id set when the resource-link id is truthy) and submits the grade
  with it; when it cannot, the handler submits the grade alone.
\<close>

theorem set_score_line_item_by_capability:
  assumes "has_ags ml"
    and "resource_link_id ml = Inr rlid"
    and "POST req ''score'' = Some score_text"
    and "py_int rt score_text = Some score"
    and "0 \<le> score"
    and "sc = \<lparr>g_score_given = score, g_score_maximum = 100,
                g_timestamp = utcnow_isoformat rt @ ''Z'',
                g_activity_progress = POST req ''activity-progress'',
                g_grading_progress = POST req ''grading-progress'',
                g_user_id = dict_get (get_launch_data ml) ''sub'' PNone\<rparr>"
    and "item = \<lparr>li_id = None, li_tag = Some ''score'', li_score_maximum = Some 100,
                  li_label = Some ''Score'',
                  li_resource_id = (if truthy rlid then Some rlid else None)\<rparr>"
  shows "(can_create_lineitem (get_ags ml) = Inr True \<longrightarrow>
            SetScoreView_post rt ml req
              = (score_response (put_grade (get_ags ml) sc (Some item)),
                 [Call_put_grade sc (Some item)]))
         \<and> (can_create_lineitem (get_ags ml) = Inr False \<longrightarrow>
            SetScoreView_post rt ml req
              = (score_response (put_grade (get_ags ml) sc None), [Call_put_grade sc None]))"
  using assms
  by (simp add: SetScoreView_post_def build_grade_def set_score_given_def
        score_line_item_def LineItem_def Let_def)

theorem set_score_line_item_by_capability_witness:
  "SetScoreView_post ex_env ex_launch ex_request
     = (Inr (JsonResponse [(''success'', PBool True), (''result'', PStr ''ok'')]),
        [Call_put_grade
           \<lparr>g_score_given = 85, g_score_maximum = 100, g_timestamp = ''2024-05-01T12:00:00Z'',
             g_activity_progress = Some ''Completed'', g_grading_progress = Some ''FullyGraded'',
             g_user_id = PStr ''u1''\<rparr>
           (Some \<lparr>li_id = None, li_tag = Some ''score'', li_score_maximum = Some 100,
                   li_label = Some ''Score'', li_resource_id = Some (PStr ''rl1'')\<rparr>)])
   \<and> SetScoreView_post ex_env (ex_launch\<lparr>get_ags := score_only_ags\<rparr>) ex_request
     = (Inr (JsonResponse [(''success'', PBool True), (''result'', PStr ''ok'')]),
        [Call_put_grade
           \<lparr>g_score_given = 85, g_score_maximum = 100, g_timestamp = ''2024-05-01T12:00:00Z'',
             g_activity_progress = Some ''Completed'', g_grading_progress = Some ''FullyGraded'',
             g_user_id = PStr ''u1''\<rparr>
           None])"
proof -
  have rl: "resource_link_id ex_launch = Inr (PStr ''rl1'')"
    and rl': "resource_link_id (ex_launch\<lparr>get_ags := score_only_ags\<rparr>) = Inr (PStr ''rl1'')"
    by (simp_all add: resource_link_id_def ex_launch_def attr_get_def dict_get_def)
  have ags: "has_ags ex_launch" and ags': "has_ags (ex_launch\<lparr>get_ags := score_only_ags\<rparr>)"
    by (simp_all add: ex_launch_def)
  have posted: "POST ex_request ''score'' = Some ''85''"
    by (simp add: ex_request_def)
  have parsed: "py_int ex_env ''85'' = Some 85"
    by (simp add: ex_env_def)
  have positive: "(0::int) \<le> 85"
    by simp
  show ?thesis
    using set_score_line_item_by_capability [OF ags rl posted parsed positive refl refl]
      set_score_line_item_by_capability [OF ags' rl' posted parsed positive refl refl]
    by (simp add: ex_launch_def ex_ags_def score_only_ags_def ex_env_def ex_request_def
          score_response_def dict_get_def)
qed

text \<open>
  Claim C1 as stated fails, at six score POSTs on a launch with the grade service. A
  launch whose line item already exists and whose grade service can create line items
  still gets a \<open>LineItem\<close>, and a launch with no line item whose grade service cannot
  create any gets none. A negative score is refused while the grade is built, a missing
  score by \<^verbatim>\<open>int\<close>, and a resource-link claim that is not a dictionary at line 231: each
  raises and nothing is submitted. A resource-link id that is the empty string is present
  and is not set on the line item.
\<close>

theorem set_score_existing_line_item_counterexample:
  "lineitem (get_ags ex_launch) = Some ''https://lms.example/lineitems/7''
   \<and> snd (SetScoreView_post ex_env ex_launch ex_request)
     = [Call_put_grade
          \<lparr>g_score_given = 85, g_score_maximum = 100, g_timestamp = ''2024-05-01T12:00:00Z'',
             g_activity_progress = Some ''Completed'', g_grading_progress = Some ''FullyGraded'',
             g_user_id = PStr ''u1''\<rparr>
          (Some \<lparr>li_id = None, li_tag = Some ''score'', li_score_maximum = Some 100,
                  li_label = Some ''Score'', li_resource_id = Some (PStr ''rl1'')\<rparr>)]
   \<and> lineitem (get_ags (ex_launch\<lparr>get_ags := score_only_ags\<rparr>)) = None
   \<and> snd (SetScoreView_post ex_env (ex_launch\<lparr>get_ags := score_only_ags\<rparr>) ex_request)
     = [Call_put_grade
          \<lparr>g_score_given = 85, g_score_maximum = 100, g_timestamp = ''2024-05-01T12:00:00Z'',
             g_activity_progress = Some ''Completed'', g_grading_progress = Some ''FullyGraded'',
             g_user_id = PStr ''u1''\<rparr>
          None]
   \<and> SetScoreView_post ex_env ex_launch negative_score_request
     = (Inl (LtiException
          ''Invalid scoreGiven value: score must be positive number (including 0)''), [])
   \<and> SetScoreView_post ex_env ex_launch no_score_request
     = (Inl (TypeError ''int() argument must be a string''), [])
   \<and> SetScoreView_post ex_env bad_link_launch ex_request = (Inl (AttributeError ''get''), [])
   \<and> snd (SetScoreView_post ex_env empty_link_launch ex_request)
     = [Call_put_grade
          \<lparr>g_score_given = 85, g_score_maximum = 100, g_timestamp = ''2024-05-01T12:00:00Z'',
             g_activity_progress = Some ''Completed'', g_grading_progress = Some ''FullyGraded'',
             g_user_id = PStr ''u1''\<rparr>
          (Some \<lparr>li_id = None, li_tag = Some ''score'', li_score_maximum = Some 100,
                  li_label = Some ''Score'', li_resource_id = None\<rparr>)]"
  by (simp add: SetScoreView_post_def build_grade_def set_score_given_def score_response_def
        ex_env_def ex_launch_def ex_request_def ex_ags_def score_only_ags_def
        negative_score_request_def no_score_request_def bad_link_launch_def
        empty_link_launch_def resource_link_id_def attr_get_def dict_get_def
        score_line_item_def LineItem_def Let_def)

text \<open>
  Claim C2 (what the code does). On a launch without the roster service or without the
  grade service, \<open>get_context_data\<close> returns the \<open>HttpResponseForbidden\<close> object, and
  the inherited \<open>get\<close> hands that object to \<open>render_to_response\<close> as the context of
  \<^verbatim>\<open>scoreboard.html\<close>: the handler's response is the template response, with status
  200, not the 403 response.
\<close>

theorem scoreboard_missing_capability_response:
  assumes "resource_link_id ml = Inr rlid"
    and "\<not> has_nrps ml \<or> \<not> has_ags ml"
    and "msg = (if \<not> has_nrps ml then ''Don't have names and roles!''
                else ''Don't have grades!'')"
  shows "ScoreboardView_get rt ml req
           = (Inr (TemplateResponse [''scoreboard.html'']
                (ContextObject (HttpResponseForbidden msg))), [])
         \<and> status_code (TemplateResponse [''scoreboard.html'']
                (ContextObject (HttpResponseForbidden msg))) = 200"
  using assms
  by (auto simp add: ScoreboardView_get_def ScoreboardView_get_context_data_def)

theorem scoreboard_missing_capability_response_witness:
  "ScoreboardView_get ex_env (ex_launch\<lparr>has_nrps := False\<rparr>) (ex_request\<lparr>req_method := M_GET\<rparr>)
     = (Inr (TemplateResponse [''scoreboard.html'']
          (ContextObject (HttpResponse 403 ''Don't have names and roles!''))), [])
   \<and> ScoreboardView_get ex_env (ex_launch\<lparr>has_ags := False\<rparr>) (ex_request\<lparr>req_method := M_GET\<rparr>)
     = (Inr (TemplateResponse [''scoreboard.html'']
          (ContextObject (HttpResponse 403 ''Don't have grades!''))), [])"
proof -
  have rl: "resource_link_id (ex_launch\<lparr>has_nrps := False\<rparr>) = Inr (PStr ''rl1'')"
    and rl': "resource_link_id (ex_launch\<lparr>has_ags := False\<rparr>) = Inr (PStr ''rl1'')"
    by (simp_all add: resource_link_id_def ex_launch_def attr_get_def dict_get_def)
  have a: "\<not> has_nrps (ex_launch\<lparr>has_nrps := False\<rparr>) \<or> \<not> has_ags (ex_launch\<lparr>has_nrps := False\<rparr>)"
    and b: "\<not> has_nrps (ex_launch\<lparr>has_ags := False\<rparr>) \<or> \<not> has_ags (ex_launch\<lparr>has_ags := False\<rparr>)"
    by simp_all
  show ?thesis
    using scoreboard_missing_capability_response [OF rl a refl, of ex_env "ex_request\<lparr>req_method := M_GET\<rparr>"]
      scoreboard_missing_capability_response [OF rl' b refl, of ex_env "ex_request\<lparr>req_method := M_GET\<rparr>"]
    by (simp add: ex_launch_def HttpResponseForbidden_def)
qed


section \<open>The cached launch\<close>


lemma cache_after_minted:
  "cache_after rt c rs i = Some ml \<Longrightarrow> c i = Some ml \<or> Launch (Inr ml) \<in> set rs"
proof (induction rs arbitrary: c)
  case Nil
  then show ?case by simp
next
  case (Cons r rs)
  from Cons.IH [of "fst (serve rt c r)"] Cons.prems
  have "fst (serve rt c r) i = Some ml \<or> Launch (Inr ml) \<in> set rs"
    by simp
  then show ?case
  proof
    assume "fst (serve rt c r) i = Some ml"
    then show ?thesis
      by (cases r) (auto simp add: mint_def split: sum.splits if_splits)
  next
    assume "Launch (Inr ml) \<in> set rs"
    then show ?thesis by simp
  qed
qed

lemma get_message_launch_cached:
  "CachedLTIView_get_message_launch c v req = Inr ml \<Longrightarrow>
   \<exists>i. get_launch_id v req = Inr (Some i) \<and> c i = Some ml"
  by (auto simp add: CachedLTIView_get_message_launch_def from_cache_def
        split: sum.splits option.splits)

text \<open>
  Claim C8. A cached view whose launch id is absent, cannot be read, or has no entry in
  the cache fails: loading the launch raises, \<open>dispatch\<close> raises the same error, and no
  handler runs. A launch that is loaded is the cache's entry under the request's launch
  id, and it is that launch the handler is run on. Starting from an empty cache, every
  launch a cached view loads was put there by a validated launch request before.
\<close>

theorem cached_views_fail_closed:
  "(\<not> (\<exists>i ml. get_launch_id v req = Inr (Some i) \<and> c i = Some ml) \<longrightarrow>
      (\<exists>e. CachedLTIView_get_message_launch c v req = Inl e
          \<and> CachedLTIView_dispatch rt c v req = (Inl e, [])))
   \<and> (\<forall>ml. CachedLTIView_get_message_launch c v req = Inr ml \<longrightarrow>
         (\<exists>i. get_launch_id v req = Inr (Some i) \<and> c i = Some ml)
         \<and> CachedLTIView_dispatch rt c v req = View_dispatch rt v ml req)
   \<and> (\<forall>ml. CachedLTIView_get_message_launch (cache_after rt Map.empty rs) v req = Inr ml \<longrightarrow>
         Launch (Inr ml) \<in> set rs)"
proof (intro conjI allI impI)
  assume "\<not> (\<exists>i ml. get_launch_id v req = Inr (Some i) \<and> c i = Some ml)"
  then show "\<exists>e. CachedLTIView_get_message_launch c v req = Inl e
          \<and> CachedLTIView_dispatch rt c v req = (Inl e, [])"
    by (auto simp add: CachedLTIView_dispatch_def CachedLTIView_get_message_launch_def
          from_cache_def split: sum.splits option.splits)
next
  fix ml assume "CachedLTIView_get_message_launch c v req = Inr ml"
  then show "\<exists>i. get_launch_id v req = Inr (Some i) \<and> c i = Some ml"
    by (rule get_message_launch_cached)
next
  fix ml assume "CachedLTIView_get_message_launch c v req = Inr ml"
  then show "CachedLTIView_dispatch rt c v req = View_dispatch rt v ml req"
    by (simp add: CachedLTIView_dispatch_def)
next
  fix ml
  assume "CachedLTIView_get_message_launch (cache_after rt Map.empty rs) v req = Inr ml"
  from get_message_launch_cached [OF this] obtain i
    where "cache_after rt Map.empty rs i = Some ml"
    by blast
  from cache_after_minted [OF this] show "Launch (Inr ml) \<in> set rs"
    by simp
qed

theorem cached_views_fail_closed_witness:
  "CachedLTIView_dispatch ex_env Map.empty ScoreboardView launch_1_request
     = (Inl (LtiException ''Launch data not found''), [])
   \<and> CachedLTIView_dispatch ex_env [''lti1p3-launch-1'' \<mapsto> ex_launch] CompleteDeepLinkView
        (ex_request\<lparr>POST := Map.empty, kwargs := Map.empty\<rparr>)
     = (Inl (LtiException ''Launch data not found''), [])
   \<and> CachedLTIView_get_message_launch
        (cache_after ex_env Map.empty [Launch (Inr ex_launch)]) ScoreboardView launch_1_request
     = Inr ex_launch
   \<and> Launch (Inr ex_launch) \<in> set [Launch (Inr ex_launch)]"
proof -
  have load: "CachedLTIView_get_message_launch
        (cache_after ex_env Map.empty [Launch (Inr ex_launch)]) ScoreboardView launch_1_request
     = Inr ex_launch"
    by (simp add: CachedLTIView_get_message_launch_def get_launch_id_def
          CachedLTIView_get_launch_id_def from_cache_def launch_1_request_def ex_request_def
          mint_def)
       (simp add: ex_launch_def)
  have a: "\<not> (\<exists>i ml. get_launch_id ScoreboardView launch_1_request = Inr (Some i)
             \<and> Map.empty i = Some ml)"
    by simp
  have b: "\<not> (\<exists>i ml. get_launch_id CompleteDeepLinkView
               (ex_request\<lparr>POST := Map.empty, kwargs := Map.empty\<rparr>) = Inr (Some i)
             \<and> [''lti1p3-launch-1'' \<mapsto> ex_launch] i = Some ml)"
    by (simp add: get_launch_id_def CachedLTIView_get_launch_id_def)
  from cached_views_fail_closed [of ScoreboardView launch_1_request Map.empty ex_env
      "[Launch (Inr ex_launch)]"] a
    cached_views_fail_closed [of CompleteDeepLinkView
      "ex_request\<lparr>POST := Map.empty, kwargs := Map.empty\<rparr>"
      "[''lti1p3-launch-1'' \<mapsto> ex_launch]" ex_env "[]"] b
    load
  show ?thesis
    by (auto simp add: CachedLTIView_get_message_launch_def get_launch_id_def
          CachedLTIView_get_launch_id_def from_cache_def launch_1_request_def ex_request_def)
qed


section \<open>The scoreboard join\<close>


text \<open>Reading a dictionary after an assignment to one of its keys.\<close>

lemma map_of_dict_set:
  "map_of (dict_set d k v) k' = (if k' = k then Some v else map_of d k')"
  by (simp add: dict_set_def update_conv')

lemma member_by_user_keep:
  "member_by_user ms i acc = Inr bu \<Longrightarrow> \<forall>m\<in>set ms. member_key m \<noteq> Some k \<Longrightarrow> bu k = acc k"
proof (induction ms arbitrary: i acc)
  case Nil
  then show ?case by simp
next
  case (Cons m ms)
  from Cons.prems(1) obtain u where u: "map_of m ''user_id'' = Some u" "hashable u"
    and rest: "member_by_user ms (Suc i) (acc(dict_key u \<mapsto> i)) = Inr bu"
    by (auto simp add: dict_item_def split: option.splits if_splits)
  from Cons.prems(2) u have "dict_key u \<noteq> k"
    by (auto simp add: member_key_def)
  moreover from Cons.IH [OF rest] Cons.prems(2) have "bu k = (acc(dict_key u \<mapsto> i)) k"
    by simp
  ultimately show ?case by simp
qed


lemma member_by_user_range:
  "member_by_user ms i acc = Inr bu \<Longrightarrow> bu k = Some n \<Longrightarrow>
   acc k = Some n \<or> (i \<le> n \<and> n < i + length ms \<and> member_key (ms ! (n - i)) = Some k)"
proof (induction ms arbitrary: i acc)
  case Nil
  then show ?case by simp
next
  case (Cons m ms)
  from Cons.prems(1) obtain u where u: "map_of m ''user_id'' = Some u" "hashable u"
    and rest: "member_by_user ms (Suc i) (acc(dict_key u \<mapsto> i)) = Inr bu"
    by (auto simp add: dict_item_def split: option.splits if_splits)
  have mk: "member_key m = Some (dict_key u)"
    using u by (simp add: member_key_def)
  from Cons.IH [OF rest Cons.prems(2)]
  consider "(acc(dict_key u \<mapsto> i)) k = Some n"
    | "Suc i \<le> n" "n < Suc i + length ms" "member_key (ms ! (n - Suc i)) = Some k"
    by blast
  then show ?case
  proof cases
    case 1
    then show ?thesis using mk by (auto split: if_splits)
  next
    case 2
    then have "(m # ms) ! (n - i) = ms ! (n - Suc i)"
      by (simp add: nth_Cons' Suc_diff_Suc)
    with 2 show ?thesis by simp
  qed
qed

lemma member_by_user_distinct:
  "member_by_user ms i acc = Inr bu \<Longrightarrow> distinct (map member_key ms) \<Longrightarrow>
   j < length ms \<Longrightarrow> member_key (ms ! j) = Some k \<Longrightarrow> bu k = Some (i + j)"
proof (induction ms arbitrary: i acc j)
  case Nil
  then show ?case by simp
next
  case (Cons m ms)
  from Cons.prems(1) obtain u where u: "map_of m ''user_id'' = Some u" "hashable u"
    and rest: "member_by_user ms (Suc i) (acc(dict_key u \<mapsto> i)) = Inr bu"
    by (auto simp add: dict_item_def split: option.splits if_splits)
  have mk: "member_key m = Some (dict_key u)"
    using u by (simp add: member_key_def)
  show ?case
  proof (cases j)
    case 0
    with Cons.prems(4) mk have k: "k = dict_key u" by simp
    from Cons.prems(2) mk have "Some (dict_key u) \<notin> member_key ` set ms"
      by simp
    then have "\<forall>x\<in>set ms. member_key x \<noteq> Some k"
      unfolding k by force
    from member_by_user_keep [OF rest this] show ?thesis
      using 0 k by simp
  next
    case (Suc j')
    with Cons.prems have "distinct (map member_key ms)" "j' < length ms"
      "member_key (ms ! j') = Some k"
      by simp_all
    from Cons.IH [OF rest this] show ?thesis using Suc by simp
  qed
qed


lemma member_by_user_wf:
  "member_by_user ms i acc = Inr bu \<Longrightarrow>
   \<forall>m\<in>set ms. \<exists>u. map_of m ''user_id'' = Some u \<and> hashable u"
  by (induction ms arbitrary: i acc)
     (auto simp add: dict_item_def split: option.splits if_splits)


lemma join_scores_step:
  assumes "join_scores bu members (s # ss) = Inr res"
  obtains k i where "map_of s ''userId'' = Some k" "hashable k" "bu (dict_key k) = Some i"
    "join_scores bu (members[i := dict_set (members ! i) ''score'' (PDict s)]) ss = Inr res"
  using assms
  by (auto simp add: dict_item_def split: option.splits if_splits)

lemma join_scores_result:
  "join_scores bu members scores = Inr res \<Longrightarrow>
   length res = length members
   \<and> (\<forall>j<length members.
        (\<forall>k'. k' \<noteq> ''score'' \<longrightarrow> map_of (res ! j) k' = map_of (members ! j) k')
        \<and> map_of (res ! j) ''score''
            = (case filter (\<lambda>s. target bu s = Some j) scores of
                 [] \<Rightarrow> map_of (members ! j) ''score''
               | s # ss \<Rightarrow> Some (PDict (last (s # ss)))))"
proof (induction scores arbitrary: members)
  case Nil
  then show ?case by simp
next
  case (Cons s ss)
  from Cons.prems obtain k i where k: "map_of s ''userId'' = Some k" "hashable k"
    and i: "bu (dict_key k) = Some i"
    and rest: "join_scores bu (members[i := dict_set (members ! i) ''score'' (PDict s)]) ss
               = Inr res"
    by (rule join_scores_step)
  let ?ms = "members[i := dict_set (members ! i) ''score'' (PDict s)]"
  have tgt: "target bu s = Some i"
    using k i by (simp add: target_def score_key_def)
  note IH = Cons.IH [OF rest]
  have len: "length res = length members"
    using IH by simp
  have "(\<forall>k'. k' \<noteq> ''score'' \<longrightarrow> map_of (res ! j) k' = map_of (members ! j) k')
        \<and> map_of (res ! j) ''score''
            = (case filter (\<lambda>s. target bu s = Some j) (s # ss) of
                 [] \<Rightarrow> map_of (members ! j) ''score''
               | s # ss \<Rightarrow> Some (PDict (last (s # ss))))"
    if j: "j < length members" for j
  proof -
    from IH j have other: "\<forall>k'. k' \<noteq> ''score'' \<longrightarrow> map_of (res ! j) k' = map_of (?ms ! j) k'"
      and score: "map_of (res ! j) ''score''
            = (case filter (\<lambda>s. target bu s = Some j) ss of
                 [] \<Rightarrow> map_of (?ms ! j) ''score''
               | s # ss \<Rightarrow> Some (PDict (last (s # ss))))"
      by simp_all
    show ?thesis
    proof (cases "j = i")
      case True
      then have upd: "?ms ! j = dict_set (members ! i) ''score'' (PDict s)"
        using j by simp
      have a: "\<forall>k'. k' \<noteq> ''score'' \<longrightarrow> map_of (res ! j) k' = map_of (members ! j) k'"
        using other upd True by (simp add: map_of_dict_set)
      have b: "map_of (res ! j) ''score''
            = (case filter (\<lambda>s. target bu s = Some j) ss of
                 [] \<Rightarrow> Some (PDict s)
               | s # ss \<Rightarrow> Some (PDict (last (s # ss))))"
        using score upd by (simp add: map_of_dict_set split: list.splits)
      from a b show ?thesis
        using tgt True by (simp split: list.splits)
    next
      case False
      then have "?ms ! j = members ! j"
        by simp
      with other score show ?thesis
        using tgt False by (simp split: list.splits)
    qed
  qed
  with len show ?case by blast
qed



lemma annotate_members_result:
  "annotate_members rt ms = Inr ms' \<Longrightarrow>
   length ms' = length ms
   \<and> (\<forall>j<length ms. \<forall>k. k \<noteq> ''teacher'' \<and> k \<noteq> ''student'' \<longrightarrow>
         map_of (ms' ! j) k = map_of (ms ! j) k)"
proof (induction ms arbitrary: ms')
  case Nil
  then show ?case by simp
next
  case (Cons m ms)
  from Cons.prems obtain t s rest where rest: "annotate_members rt ms = Inr rest"
    and ms': "ms' = dict_set (dict_set m ''teacher'' (PBool t)) ''student'' (PBool s) # rest"
    by (auto split: sum.splits)
  from Cons.IH [OF rest] show ?case
    unfolding ms' by (auto simp add: nth_Cons' map_of_dict_set)
qed

lemma annotate_members_keys:
  assumes "annotate_members rt ms = Inr ms'"
  shows "map member_key ms' = map member_key ms"
    and "map (\<lambda>m. map_of m ''score'') ms' = map (\<lambda>m. map_of m ''score'') ms"
  using annotate_members_result [OF assms]
  by (auto intro!: nth_equalityI simp add: member_key_def)


lemma scoreboard_join_target:
  assumes bu: "member_by_user members 0 Map.empty = Inr bu"
    and dist: "distinct (map member_key members)"
    and j: "j < length members"
  shows "(target bu s = Some j) = (score_key s = member_key (members ! j))"
proof
  assume "target bu s = Some j"
  then obtain k where k: "score_key s = Some k" "bu k = Some j"
    by (auto simp add: target_def split: option.splits)
  from member_by_user_range [OF bu k(2)] k(1) show "score_key s = member_key (members ! j)"
    by simp
next
  assume eq: "score_key s = member_key (members ! j)"
  from member_by_user_wf [OF bu] j obtain u where "map_of (members ! j) ''user_id'' = Some u"
    by (meson nth_mem)
  then have mk: "member_key (members ! j) = Some (dict_key u)"
    by (simp add: member_key_def)
  from member_by_user_distinct [OF bu dist j mk] eq mk show "target bu s = Some j"
    by (simp add: target_def)
qed

lemma scoreboard_join_result:
  assumes ok: "scoreboard_join members scores = Inr joined"
    and dist: "distinct (map member_key members)"
  shows "length joined = length members"
    and "j < length members \<Longrightarrow> k' \<noteq> ''score'' \<Longrightarrow>
           map_of (joined ! j) k' = map_of (members ! j) k'"
    and "j < length members \<Longrightarrow>
           map_of (joined ! j) ''score''
             = (case filter (\<lambda>s. score_key s = member_key (members ! j)) scores of
                  [] \<Rightarrow> map_of (members ! j) ''score''
                | s # ss \<Rightarrow> Some (PDict (last (s # ss))))"
proof -
  from ok obtain bu where bu: "member_by_user members 0 Map.empty = Inr bu"
    and js: "join_scores bu members scores = Inr joined"
    by (auto simp add: scoreboard_join_def split: sum.splits)
  note res = join_scores_result [OF js]
  from res show "length joined = length members" by simp
  from res show "j < length members \<Longrightarrow> k' \<noteq> ''score'' \<Longrightarrow>
           map_of (joined ! j) k' = map_of (members ! j) k'"
    by simp
  show "map_of (joined ! j) ''score''
             = (case filter (\<lambda>s. score_key s = member_key (members ! j)) scores of
                  [] \<Rightarrow> map_of (members ! j) ''score''
                | s # ss \<Rightarrow> Some (PDict (last (s # ss))))"
    if j: "j < length members"
  proof -
    have "filter (\<lambda>s. target bu s = Some j) scores
          = filter (\<lambda>s. score_key s = member_key (members ! j)) scores"
      using scoreboard_join_target [OF bu dist j] by simp
    with res j show ?thesis by simp
  qed
qed



lemma scoreboard_context_dict:
  assumes "ScoreboardView_get_context_data rt ml req = (Inr (ContextDict ctx), calls)"
  obtains rlid scores pre members annotated joined
  where "resource_link_id ml = Inr rlid"
    and "fetch_scores (get_ags ml) rlid = (Inr scores, pre)"
    and "get_members (get_nrps ml) = Inr members"
    and "annotate_members rt members = Inr annotated"
    and "scoreboard_join annotated scores = Inr joined"
    and "ctx = dict_set (base_context req) ''members'' (PList (map PDict joined))"
  using assms
  by (auto simp add: ScoreboardView_get_context_data_def scoreboard_members_def
        split: sum.splits if_splits prod.splits)

text \<open>The example roster of three members, two of them with a score entry.\<close>

lemmas board_defs =
  board_launch_def board_request_def board_calls_def
  ex_launch_def ex_ags_def ex_env_def ex_request_def

lemma board_resource_link: "resource_link_id (board_launch members scores) = Inr (PStr ''rl1'')"
  by (simp add: resource_link_id_def board_defs attr_get_def dict_get_def)

lemma board_fetch_scores:
  "fetch_scores (get_ags (board_launch members scores)) (PStr ''rl1'') = (Inr scores, board_calls)"
  by (simp add: fetch_scores_def board_defs score_line_item_def LineItem_def)

lemma board_annotate: "annotate_members ex_env board_members = Inr board_annotated"
  by (simp add: board_members_def board_annotated_def ex_env_def dict_item_def dict_set_def)

lemma board_join: "scoreboard_join board_annotated board_scores = Inr board_joined"
  by (simp add: scoreboard_join_def board_annotated_def board_scores_def board_joined_def
        dict_item_def dict_set_def)

lemma board_roster: "get_members (get_nrps (board_launch members scores)) = Inr members"
  by (simp add: board_launch_def)

lemma board_caps: "has_nrps (board_launch members scores)" "has_ags (board_launch members scores)"
  by (simp_all add: board_launch_def ex_launch_def)

lemma board_render:
  "ScoreboardView_get_context_data ex_env (board_launch board_members board_scores) board_request
     = (Inr (ContextDict [(''launch_id'', PStr ''from-url''),
                          (''members'', PList (map PDict board_joined))]),
        board_calls @ [Call_get_members])"
proof -
  have "base_context board_request = [(''launch_id'', PStr ''from-url'')]"
    by (simp add: board_request_def ex_request_def)
  then have "scoreboard_members ex_env (board_launch board_members board_scores) board_request board_scores
     = Inr (ContextDict [(''launch_id'', PStr ''from-url''),
                          (''members'', PList (map PDict board_joined))])"
    by (simp add: scoreboard_members_def board_roster board_annotate board_join dict_set_def)
  then show ?thesis
    by (simp add: ScoreboardView_get_context_data_def board_resource_link board_fetch_scores
          board_caps)
qed

text \<open>
  Claim C9, as amended. For a scoreboard render (the context is a dictionary) whose
  roster lists each subject id once and whose entries arrive without a \<^verbatim>\<open>score\<close> key:
  the context's members are the roster's, in order and with their subject ids; a member
  with matching score entries carries the last of them under \<^verbatim>\<open>score\<close>, and a member
  with none has no \<^verbatim>\<open>score\<close> key.
\<close>

theorem scoreboard_join_semantics:
  assumes render: "ScoreboardView_get_context_data rt ml req = (Inr (ContextDict ctx), calls)"
    and roster: "get_members (get_nrps ml) = Inr members"
    and distinct_ids: "distinct (map member_key members)"
    and no_score: "\<forall>m\<in>set members. map_of m ''score'' = None"
  shows "\<exists>rlid scores joined.
           resource_link_id ml = Inr rlid
           \<and> fst (fetch_scores (get_ags ml) rlid) = Inr scores
           \<and> map_of ctx ''members'' = Some (PList (map PDict joined))
           \<and> length joined = length members
           \<and> (\<forall>j<length members.
                 member_key (joined ! j) = member_key (members ! j)
                 \<and> map_of (joined ! j) ''score''
                     = (case filter (\<lambda>s. score_key s = member_key (members ! j)) scores of
                          [] \<Rightarrow> None
                        | s # ss \<Rightarrow> Some (PDict (last (s # ss)))))"
proof -
  from render obtain rlid scores pre members' annotated joined
    where rl: "resource_link_id ml = Inr rlid"
      and sc: "fetch_scores (get_ags ml) rlid = (Inr scores, pre)"
      and ms: "get_members (get_nrps ml) = Inr members'"
      and an: "annotate_members rt members' = Inr annotated"
      and jn: "scoreboard_join annotated scores = Inr joined"
      and ctx: "ctx = dict_set (base_context req) ''members'' (PList (map PDict joined))"
    by (rule scoreboard_context_dict)
  from ms roster have same: "members' = members" by simp
  note an = an [unfolded same]
  note keys = annotate_members_keys [OF an]
  have len_an: "length annotated = length members"
    using annotate_members_result [OF an] by simp
  have dist: "distinct (map member_key annotated)"
    using keys(1) distinct_ids by simp
  note res = scoreboard_join_result [OF jn dist]
  have len: "length joined = length members"
    using res(1) len_an by simp
  have "member_key (joined ! j) = member_key (members ! j)
        \<and> map_of (joined ! j) ''score''
            = (case filter (\<lambda>s. score_key s = member_key (members ! j)) scores of
                 [] \<Rightarrow> None
               | s # ss \<Rightarrow> Some (PDict (last (s # ss))))"
    if j: "j < length members" for j
  proof -
    from j len_an have j': "j < length annotated" by simp
    have mk: "member_key (annotated ! j) = member_key (members ! j)"
      using keys(1) j j' by (metis nth_map)
    have "map_of (annotated ! j) ''score'' = map_of (members ! j) ''score''"
      using keys(2) j j' by (metis (mono_tags, lifting) nth_map)
    with no_score j have old: "map_of (annotated ! j) ''score'' = None"
      by simp
    have "map_of (joined ! j) ''user_id'' = map_of (annotated ! j) ''user_id''"
      using res(2) [OF j'] by simp
    then have "member_key (joined ! j) = member_key (members ! j)"
      using mk by (simp add: member_key_def)
    moreover have "map_of (joined ! j) ''score''
            = (case filter (\<lambda>s. score_key s = member_key (members ! j)) scores of
                 [] \<Rightarrow> None
               | s # ss \<Rightarrow> Some (PDict (last (s # ss))))"
      using res(3) [OF j'] old mk by (simp split: list.splits)
    ultimately show ?thesis by simp
  qed
  with rl sc len ctx show ?thesis
    by (auto simp add: map_of_dict_set)
qed

theorem scoreboard_join_semantics_witness:
  "\<exists>joined. ScoreboardView_get_context_data ex_env (board_launch board_members board_scores) board_request
       = (Inr (ContextDict [(''launch_id'', PStr ''from-url''),
                            (''members'', PList (map PDict joined))]),
          board_calls @ [Call_get_members])
     \<and> length joined = 3
     \<and> map_of (joined ! 0) ''score''
         = Some (PDict [(''userId'', PStr ''u1''), (''resultScore'', PInt 85)])
     \<and> map_of (joined ! 1) ''score''
         = Some (PDict [(''userId'', PStr ''u2''), (''resultScore'', PInt 40)])
     \<and> map_of (joined ! 2) ''score'' = None"
proof -
  have dist: "distinct (map member_key board_members)"
    by (simp add: board_members_def member_key_def)
  have fresh: "\<forall>m\<in>set board_members. map_of m ''score'' = None"
    by (simp add: board_members_def)
  from scoreboard_join_semantics [OF board_render board_roster dist fresh]
  obtain rlid scores joined
    where rl: "resource_link_id (board_launch board_members board_scores) = Inr rlid"
      and sc: "fst (fetch_scores (get_ags (board_launch board_members board_scores)) rlid) = Inr scores"
      and ms: "map_of [(''launch_id'', PStr ''from-url''),
                       (''members'', PList (map PDict board_joined))] ''members''
               = Some (PList (map PDict joined))"
      and len: "length joined = length board_members"
      and each: "\<forall>j<length board_members.
                 member_key (joined ! j) = member_key (board_members ! j)
                 \<and> map_of (joined ! j) ''score''
                     = (case filter (\<lambda>s. score_key s = member_key (board_members ! j)) scores of
                          [] \<Rightarrow> None
                        | s # ss \<Rightarrow> Some (PDict (last (s # ss))))"
    by blast
  from rl have rlid: "rlid = PStr ''rl1''"
    by (simp add: board_resource_link)
  from sc have scores: "scores = board_scores"
    by (simp add: rlid board_fetch_scores)
  from ms have joined: "map PDict joined = map PDict board_joined"
    by simp
  have "joined = board_joined"
    using joined by (simp add: inj_on_def)
  moreover from each have "map_of (joined ! 0) ''score''
         = Some (PDict [(''userId'', PStr ''u1''), (''resultScore'', PInt 85)])"
    and "map_of (joined ! 1) ''score''
         = Some (PDict [(''userId'', PStr ''u2''), (''resultScore'', PInt 40)])"
    and "map_of (joined ! 2) ''score'' = None"
    by (simp_all add: scores board_members_def board_scores_def score_key_def member_key_def)
  ultimately show ?thesis
    using board_render len by (auto simp add: board_members_def)
qed

text \<open>
  Claim C9 as stated fails, at three renders. On a roster that lists a subject id twice,
  the earlier entry matches the score entry and gets no \<^verbatim>\<open>score\<close> key. A roster entry
  that arrives with a \<^verbatim>\<open>score\<close> key and matches no score entry still has the key. Of
  two score entries for one subject, the member carries the second and not the first.
\<close>

theorem scoreboard_duplicate_member_counterexample:
  "ScoreboardView_get_context_data ex_env (board_launch dup_members dup_scores) board_request
     = (Inr (ContextDict
          [(''launch_id'', PStr ''from-url''),
           (''members'',
            PList
              [PDict [(''user_id'', PStr ''u1''), (''name'', PStr ''Ada''),
                      (''roles'', PList [PStr ''Learner'']),
                      (''teacher'', PBool False), (''student'', PBool True)],
               PDict [(''user_id'', PStr ''u1''), (''name'', PStr ''Ada L.''),
                      (''roles'', PList [PStr ''Learner'']),
                      (''teacher'', PBool False), (''student'', PBool True),
                      (''score'',
                       PDict [(''userId'', PStr ''u1''), (''resultScore'', PInt 85)])]])]),
        board_calls @ [Call_get_members])
   \<and> score_key (dup_scores ! 0) = member_key (dup_members ! 0)
   \<and> ScoreboardView_get_context_data ex_env (board_launch scored_members []) board_request
     = (Inr (ContextDict
          [(''launch_id'', PStr ''from-url''),
           (''members'',
            PList
              [PDict [(''user_id'', PStr ''u1''), (''name'', PStr ''Ada''),
                      (''roles'', PList [PStr ''Learner'']), (''score'', PInt 0),
                      (''teacher'', PBool False), (''student'', PBool True)]])]),
        board_calls @ [Call_get_members])
   \<and> ScoreboardView_get_context_data ex_env (board_launch solo_members two_scores)
       board_request
     = (Inr (ContextDict
          [(''launch_id'', PStr ''from-url''),
           (''members'',
            PList
              [PDict [(''user_id'', PStr ''u1''), (''name'', PStr ''Ada''),
                      (''roles'', PList [PStr ''Learner'']),
                      (''teacher'', PBool False), (''student'', PBool True),
                      (''score'',
                       PDict [(''userId'', PStr ''u1''), (''resultScore'', PInt 90)])]])]),
        board_calls @ [Call_get_members])
   \<and> score_key (two_scores ! 0) = member_key (solo_members ! 0)"
proof -
  have dup: "scoreboard_members ex_env (board_launch dup_members dup_scores) board_request
       dup_scores
     = Inr (ContextDict
          [(''launch_id'', PStr ''from-url''),
           (''members'',
            PList
              [PDict [(''user_id'', PStr ''u1''), (''name'', PStr ''Ada''),
                      (''roles'', PList [PStr ''Learner'']),
                      (''teacher'', PBool False), (''student'', PBool True)],
               PDict [(''user_id'', PStr ''u1''), (''name'', PStr ''Ada L.''),
                      (''roles'', PList [PStr ''Learner'']),
                      (''teacher'', PBool False), (''student'', PBool True),
                      (''score'',
                       PDict [(''userId'', PStr ''u1''), (''resultScore'', PInt 85)])]])])"
    by (simp add: scoreboard_members_def board_roster dup_members_def dup_scores_def
          ex_env_def board_request_def ex_request_def scoreboard_join_def dict_item_def
          dict_set_def)
  have scored: "scoreboard_members ex_env (board_launch scored_members []) board_request []
     = Inr (ContextDict
          [(''launch_id'', PStr ''from-url''),
           (''members'',
            PList
              [PDict [(''user_id'', PStr ''u1''), (''name'', PStr ''Ada''),
                      (''roles'', PList [PStr ''Learner'']), (''score'', PInt 0),
                      (''teacher'', PBool False), (''student'', PBool True)]])])"
    by (simp add: scoreboard_members_def board_roster scored_members_def
          ex_env_def board_request_def ex_request_def scoreboard_join_def dict_item_def
          dict_set_def)
  have two: "scoreboard_members ex_env (board_launch solo_members two_scores) board_request
       two_scores
     = Inr (ContextDict
          [(''launch_id'', PStr ''from-url''),
           (''members'',
            PList
              [PDict [(''user_id'', PStr ''u1''), (''name'', PStr ''Ada''),
                      (''roles'', PList [PStr ''Learner'']),
                      (''teacher'', PBool False), (''student'', PBool True),
                      (''score'',
                       PDict [(''userId'', PStr ''u1''), (''resultScore'', PInt 90)])]])])"
    by (simp add: scoreboard_members_def board_roster solo_members_def two_scores_def
          ex_env_def board_request_def ex_request_def scoreboard_join_def dict_item_def
          dict_set_def)
  have keys: "score_key (dup_scores ! 0) = member_key (dup_members ! 0)"
    "score_key (two_scores ! 0) = member_key (solo_members ! 0)"
    by (simp_all add: dup_members_def dup_scores_def solo_members_def two_scores_def
          score_key_def member_key_def)
  from dup scored two keys show ?thesis
    by (simp add: ScoreboardView_get_context_data_def board_resource_link board_fetch_scores
          board_caps)
qed



end
